theory Spec2Isabelle
  imports Complex_Main "HOL-Library.Word"
begin

unbundle bit_operations_syntax

section \<open>Python values used by the script\<close>

text \<open>
  The script \<^verbatim>\<open>text_image_generator\<close> is a Streamlit page: it is run from top to
  bottom on every interaction, reads the widgets, calls the Gemini client and renders
  the answer. Raw bytes are lists of 8-bit words; a Python \<^verbatim>\<open>str\<close> or base64 text is a
  \<^typ>\<open>string\<close>.
\<close>

type_synonym byte = "8 word"

text \<open>
  Exceptions are a class and the message that \<^verbatim>\<open>str(e)\<close> prints. The classes are the two
  the script names in its \<^verbatim>\<open>except\<close> clauses, the ones Python raises for the operations
  the script performs, and two that are not below \<^verbatim>\<open>Exception\<close>.
\<close>

datatype exn_class =
    BaseException | Exception | AttributeError | LookupError | KeyError | IndexError
  | ValueError | Binascii_Error | OSError | KeyboardInterrupt | SystemExit

datatype exn = Exn (cls: exn_class) (str: string)

text \<open>The classes of an exception class, itself first (Python's method resolution order).\<close>

fun mro :: "exn_class \<Rightarrow> exn_class list" where
  "mro BaseException = [BaseException]"
| "mro Exception = [Exception, BaseException]"
| "mro AttributeError = [AttributeError, Exception, BaseException]"
| "mro LookupError = [LookupError, Exception, BaseException]"
| "mro KeyError = [KeyError, LookupError, Exception, BaseException]"
| "mro IndexError = [IndexError, LookupError, Exception, BaseException]"
| "mro ValueError = [ValueError, Exception, BaseException]"
| "mro Binascii_Error = [Binascii_Error, ValueError, Exception, BaseException]"
| "mro OSError = [OSError, Exception, BaseException]"
| "mro KeyboardInterrupt = [KeyboardInterrupt, BaseException]"
| "mro SystemExit = [SystemExit, BaseException]"

definition isinstance :: "exn \<Rightarrow> exn_class \<Rightarrow> bool" where
  "isinstance e c = (c \<in> set (mro (cls e)))"

text \<open>
  How a block of statements ends: it runs to its end, an exception is on its way up, or
  \<^verbatim>\<open>st.stop()\<close> has ended the run of the script.
\<close>

datatype outcome = Normal | Raised exn | Stopped

section \<open>base64\<close>

text \<open>
  \<^verbatim>\<open>base64.b64decode(s)\<close> with its default arguments is \<^verbatim>\<open>binascii.a2b_base64\<close> in
  non-strict mode: characters outside the alphabet are discarded, a pad character ends
  the input once it completes a quad, and input that stops inside a quad is an error
  (\<^verbatim>\<open>binascii.Error\<close>, a \<^verbatim>\<open>ValueError\<close>). The payload is a byte string; a \<^typ>\<open>char\<close>
  is one byte.
\<close>

definition table_b2a_base64 :: string where
  "table_b2a_base64 =
     ''ABCDEFGHIJKLMNOPQRSTUVWXYZabcdefghijklmnopqrstuvwxyz0123456789+/''"

definition BASE64_PAD :: char where
  "BASE64_PAD = CHR ''=''"

fun index_of :: "'a \<Rightarrow> 'a list \<Rightarrow> nat option" where
  "index_of c [] = None"
| "index_of c (x # xs) =
     (if c = x then Some 0 else map_option Suc (index_of c xs))"

text \<open>The decoding table: the 6-bit value of an alphabet character, nothing otherwise.\<close>

definition table_a2b_base64 :: "char \<Rightarrow> byte option" where
  "table_a2b_base64 c = map_option of_nat (index_of c table_b2a_base64)"

fun digits :: "nat \<Rightarrow> string" where
  "digits n =
     (if n < 10 then [char_of (48 + n)] else digits (n div 10) @ [char_of (48 + n mod 10)])"

declare digits.simps [simp del]

text \<open>
  The loop of \<^verbatim>\<open>a2b_base64\<close>: \<open>quad_pos\<close> is the position inside the current group of
  four characters, \<open>leftchar\<close> the bits not yet written, \<open>pads\<close> the pad characters
  seen since the last data character, \<open>bin\<close> the bytes written so far.
\<close>

fun a2b_loop :: "nat \<Rightarrow> byte \<Rightarrow> nat \<Rightarrow> byte list \<Rightarrow> string \<Rightarrow> exn + byte list" where
  "a2b_loop quad_pos leftchar pads bin [] =
     (if quad_pos \<noteq> 0 then
        (if quad_pos = 1 then
           Inl (Exn Binascii_Error
             (''Invalid base64-encoded string: number of data characters (''
               @ digits (length bin div 3 * 4 + 1)
               @ '') cannot be 1 more than a multiple of 4''))
         else Inl (Exn Binascii_Error ''Incorrect padding''))
      else Inr bin)"
| "a2b_loop quad_pos leftchar pads bin (this_ch # ascii_data) =
     (if this_ch = BASE64_PAD then
        (if quad_pos \<ge> 2 then
           (if quad_pos + (pads + 1) \<ge> 4 then Inr bin
            else a2b_loop quad_pos leftchar (pads + 1) bin ascii_data)
         else a2b_loop quad_pos leftchar pads bin ascii_data)
      else
        (case table_a2b_base64 this_ch of
           None \<Rightarrow> a2b_loop quad_pos leftchar pads bin ascii_data
         | Some v \<Rightarrow>
             (if quad_pos = 0 then a2b_loop 1 v 0 bin ascii_data
              else if quad_pos = 1 then
                a2b_loop 2 (v AND 0x0f) 0
                  (bin @ [push_bit 2 leftchar OR drop_bit 4 v]) ascii_data
              else if quad_pos = 2 then
                a2b_loop 3 (v AND 0x03) 0
                  (bin @ [push_bit 4 leftchar OR drop_bit 2 v]) ascii_data
              else
                a2b_loop 0 0 0 (bin @ [push_bit 6 leftchar OR v]) ascii_data)))"

definition b64decode :: "string \<Rightarrow> exn + byte list" where
  "b64decode s = a2b_loop 0 0 0 [] s"

text \<open>
  The encoder the decoder is the inverse of (\<^verbatim>\<open>base64.b64encode\<close>): three bytes become
  four alphabet characters, and a last group of one or two bytes is padded.
\<close>

definition b2a :: "byte \<Rightarrow> char" where
  "b2a v = table_b2a_base64 ! unat (v AND 0x3f)"

fun b64encode :: "byte list \<Rightarrow> string" where
  "b64encode [] = []"
| "b64encode [a] =
     [b2a (drop_bit 2 a), b2a (push_bit 4 (a AND 0x03)), BASE64_PAD, BASE64_PAD]"
| "b64encode [a, b] =
     [b2a (drop_bit 2 a), b2a (push_bit 4 (a AND 0x03) OR drop_bit 4 b),
      b2a (push_bit 2 (b AND 0x0f)), BASE64_PAD]"
| "b64encode (a # b # c # rest) =
     [b2a (drop_bit 2 a), b2a (push_bit 4 (a AND 0x03) OR drop_bit 4 b),
      b2a (push_bit 2 (b AND 0x0f) OR drop_bit 6 c), b2a c] @ b64encode rest"

section \<open>The Gemini client and the Streamlit page\<close>

text \<open>
  The response of \<^verbatim>\<open>generate_content\<close> as the script reads it:
  \<^verbatim>\<open>response.candidates[0].content.parts\<close>, and for each part \<^verbatim>\<open>part.text\<close> (the empty
  string when the part has no text) and \<^verbatim>\<open>part.inline_data\<close> (absent, or a blob whose
  \<^verbatim>\<open>data\<close> the script hands to \<^verbatim>\<open>base64.b64decode\<close>).
\<close>

record blob =
  mime_type :: string
  data :: string

record part =
  part_text :: string
  part_inline_data :: "blob option"

record candidate =
  parts :: "part list"

record response =
  candidates :: "candidate list"

record GenerateContentConfig =
  max_output_tokens :: "int option"
  temperature :: "real option"
  response_mime_types :: "string list option"

text \<open>
  One call at the API boundary: the model the \<^verbatim>\<open>GenerativeModel\<close> was built for, the
  prompt, and the \<^verbatim>\<open>generation_config\<close> keyword when the call passes one.
\<close>

record request =
  model_name :: string
  contents :: string
  generation_config :: "GenerateContentConfig option"

text \<open>
  The libraries the script calls are parameters of the model: the remote call, the
  \<^verbatim>\<open>response.text\<close> accessor and \<^verbatim>\<open>PIL.Image.open\<close>. Each returns a value or raises.
\<close>

record 'img lib =
  generate_content :: "request \<Rightarrow> exn + response"
  response_text :: "response \<Rightarrow> exn + string"
  Image_open :: "byte list \<Rightarrow> exn + 'img"

text \<open>
  What a run does to the outside: the display calls in the order they were made
  (\<^verbatim>\<open>st.image\<close> with its caption and \<^verbatim>\<open>use_column_width\<close>), the requests sent, and
  the key given to \<^verbatim>\<open>genai.configure\<close>. The input widgets are read, not recorded, and
  the \<^verbatim>\<open>st.spinner\<close> shown while a call is running leaves nothing on the page.
\<close>

datatype 'img st_call =
    St_title string | St_markdown string | St_header string | St_write string
  | St_success string | St_error string | St_warning string | St_info string
  | St_image 'img string bool

record 'img page =
  rendered :: "'img st_call list"
  api_calls :: "request list"
  api_key :: "string option"

definition blank_page :: "'img page" where
  "blank_page = \<lparr>rendered = [], api_calls = [], api_key = None\<rparr>"

definition st :: "'img st_call \<Rightarrow> 'img page \<Rightarrow> 'img page" where
  "st c pg = pg\<lparr>rendered := rendered pg @ [c]\<rparr>"

definition say :: "'img st_call \<Rightarrow> 'img page \<Rightarrow> 'img page \<times> outcome" where
  "say c pg = (st c pg, Normal)"

definition sent :: "request \<Rightarrow> 'img page \<Rightarrow> 'img page" where
  "sent rq pg = pg\<lparr>api_calls := api_calls pg @ [rq]\<rparr>"

text \<open>
  The call \<^verbatim>\<open>model.generate_content(...)\<close>: the request that reaches the client is the one
  recorded on the page, together with what the client answers.
\<close>

definition call_generate_content ::
  "'img lib \<Rightarrow> request \<Rightarrow> 'img page \<Rightarrow> 'img page \<times> (exn + response)" where
  "call_generate_content L rq pg = (sent rq pg, generate_content L rq)"

text \<open>
  Line 3 binds \<^verbatim>\<open>types\<close> to the module \<^verbatim>\<open>google.generativeai.types\<close>. That module provides
  \<^verbatim>\<open>GenerationConfig\<close> and has no attribute \<^verbatim>\<open>GenerateContentConfig\<close> (the class of that
  name belongs to the other client library, \<^verbatim>\<open>google.genai\<close>). The attribute reference
  \<^verbatim>\<open>types.GenerateContentConfig\<close> on lines 69 and 99 is evaluated with the arguments of the
  call, before the call itself, and raises \<^verbatim>\<open>AttributeError\<close>.
\<close>

definition no_GenerateContentConfig :: exn where
  "no_GenerateContentConfig =
     Exn AttributeError
       (''module 'google.generativeai.types' has no attribute ''
        @ [CHR 0x27] @ ''GenerateContentConfig'' @ [CHR 0x27])"

definition types_GenerateContentConfig ::
  "exn + (int option \<Rightarrow> real option \<Rightarrow> string list option \<Rightarrow> GenerateContentConfig)" where
  "types_GenerateContentConfig = Inl no_GenerateContentConfig"

text \<open>
  \<^verbatim>\<open>try: body  except c as e: handler\<close>: the handler runs when the body raised an
  instance of \<open>c\<close>; anything else passes through.
\<close>

definition try_except ::
  "exn_class \<Rightarrow> (exn \<Rightarrow> 'img page \<Rightarrow> 'img page \<times> outcome) \<Rightarrow> 'img page \<times> outcome
     \<Rightarrow> 'img page \<times> outcome" where
  "try_except c handler r =
     (case snd r of
        Raised e \<Rightarrow> (if isinstance e c then handler e (fst r) else r)
      | _ \<Rightarrow> r)"

text \<open>Statements in sequence: the next one runs only when the previous one ended normally.\<close>

fun run_steps :: "('img page \<Rightarrow> 'img page \<times> outcome) list \<Rightarrow> 'img page \<Rightarrow> 'img page \<times> outcome" where
  "run_steps [] pg = (pg, Normal)"
| "run_steps (f # fs) pg =
     (let r = f pg in if snd r = Normal then run_steps fs (fst r) else r)"

subsection \<open>API key configuration\<close>

text \<open>
  \<^verbatim>\<open>st.secrets["GOOGLE_API_KEY"]\<close> is a subscript on a mapping: a missing key raises
  \<^verbatim>\<open>KeyError\<close>.
\<close>

definition secrets_getitem :: "(string \<rightharpoonup> string) \<Rightarrow> string \<Rightarrow> exn + string" where
  "secrets_getitem secrets key =
     (case secrets key of None \<Rightarrow> Inl (Exn KeyError key) | Some v \<Rightarrow> Inr v)"

definition configure_api_key :: "(string \<rightharpoonup> string) \<Rightarrow> 'img page \<Rightarrow> 'img page \<times> outcome" where
  "configure_api_key secrets pg =
     try_except AttributeError
       (\<lambda>e pg'.
          (st (St_error
                ''Please set your Google API Key in Streamlit secrets. Refer to the comments in the code.'')
              pg',
           Stopped))
       (case secrets_getitem secrets ''GOOGLE_API_KEY'' of
          Inl e \<Rightarrow> (pg, Raised e)
        | Inr k \<Rightarrow> (pg\<lparr>api_key := Some k\<rparr>, Normal))"

subsection \<open>Text generation\<close>

definition text_request :: "string \<Rightarrow> request" where
  "text_request text_query =
     \<lparr>model_name = ''gemini-pro'', contents = text_query, generation_config = None\<rparr>"

definition text_body :: "'img lib \<Rightarrow> string \<Rightarrow> 'img page \<Rightarrow> 'img page \<times> outcome" where
  "text_body L text_query pg =
     (case call_generate_content L (text_request text_query) pg of
        (pg1, Inl e) \<Rightarrow> (pg1, Raised e)
      | (pg1, Inr response) \<Rightarrow>
          (let pg2 = st (St_success ''Response:'') pg1 in
           case response_text L response of
             Inl e \<Rightarrow> (pg2, Raised e)
           | Inr t \<Rightarrow> (st (St_write t) pg2, Normal)))"

definition text_action :: "'img lib \<Rightarrow> string \<Rightarrow> 'img page \<Rightarrow> 'img page \<times> outcome" where
  "text_action L text_query pg =
     (if text_query \<noteq> [] then
        try_except Exception
          (\<lambda>e. say (St_error (''Error generating text: '' @ str e)))
          (text_body L text_query pg)
      else say (St_warning ''Please enter a question.'') pg)"

subsection \<open>Text generation with config\<close>

text \<open>
  The body of the configured action, lines 65 to 75. The config object is built first; the
  request is sent only when that succeeded.
\<close>

definition config_body ::
  "'img lib \<Rightarrow> string \<Rightarrow> int \<Rightarrow> real \<Rightarrow> 'img page \<Rightarrow> 'img page \<times> outcome" where
  "config_body L explain_ai_query max_tokens temp pg =
     (case types_GenerateContentConfig of
        Inl e \<Rightarrow> (pg, Raised e)
      | Inr mk_config \<Rightarrow>
          (case call_generate_content L
                  \<lparr>model_name = ''gemini-pro'', contents = explain_ai_query,
                   generation_config = Some (mk_config (Some max_tokens) (Some temp) None)\<rparr>
                  pg of
             (pg1, Inl e) \<Rightarrow> (pg1, Raised e)
           | (pg1, Inr response) \<Rightarrow>
               (let pg2 = st (St_success ''Configured Response:'') pg1 in
                case response_text L response of
                  Inl e \<Rightarrow> (pg2, Raised e)
                | Inr t \<Rightarrow> (st (St_write t) pg2, Normal))))"

definition config_action ::
  "'img lib \<Rightarrow> string \<Rightarrow> int \<Rightarrow> real \<Rightarrow> 'img page \<Rightarrow> 'img page \<times> outcome" where
  "config_action L explain_ai_query max_tokens temp pg =
     (if explain_ai_query \<noteq> [] then
        try_except Exception
          (\<lambda>e. say (St_error (''Error generating configured text: '' @ str e)))
          (config_body L explain_ai_query max_tokens temp pg)
      else say (St_warning ''Please enter a topic to explain.'') pg)"

subsection \<open>Image generation\<close>

text \<open>The body of the loop over the parts: \<^verbatim>\<open>if part.text: ... elif part.inline_data: ...\<close>\<close>

definition process_part :: "'img lib \<Rightarrow> part \<Rightarrow> 'img page \<Rightarrow> 'img page \<times> outcome" where
  "process_part L p pg =
     (if part_text p \<noteq> [] then
        (st (St_write (''Model's description/text: '' @ part_text p)) pg, Normal)
      else
        (case part_inline_data p of
           None \<Rightarrow> (pg, Normal)
         | Some inline \<Rightarrow>
             (case b64decode (data inline) of
                Inl e \<Rightarrow> (pg, Raised e)
              | Inr image_data \<Rightarrow>
                  (case Image_open L image_data of
                     Inl e \<Rightarrow> (pg, Raised e)
                   | Inr img \<Rightarrow>
                       (st (St_image img ''Generated Image'' True) pg, Normal)))))"

fun part_loop :: "'img lib \<Rightarrow> part list \<Rightarrow> 'img page \<Rightarrow> 'img page \<times> outcome" where
  "part_loop L [] pg = (pg, Normal)"
| "part_loop L (p # ps) pg =
     (let r = process_part L p pg in
      if snd r = Normal then part_loop L ps (fst r) else r)"

text \<open>
  The loop with its header: \<^verbatim>\<open>response.candidates[0]\<close> on an empty list raises
  \<^verbatim>\<open>IndexError\<close>.
\<close>

definition interpret_response :: "'img lib \<Rightarrow> response \<Rightarrow> 'img page \<Rightarrow> 'img page \<times> outcome" where
  "interpret_response L response pg =
     (case candidates response of
        [] \<Rightarrow> (pg, Raised (Exn IndexError ''list index out of range''))
      | c # _ \<Rightarrow> part_loop L (parts c) pg)"

text \<open>
  The body of the image action, lines 95 to 112: as in the configured action, the config
  object is built before the call.
\<close>

definition image_body :: "'img lib \<Rightarrow> string \<Rightarrow> 'img page \<Rightarrow> 'img page \<times> outcome" where
  "image_body L image_prompt pg =
     (case types_GenerateContentConfig of
        Inl e \<Rightarrow> (pg, Raised e)
      | Inr mk_config \<Rightarrow>
          (case call_generate_content L
                  \<lparr>model_name = ''gemini-1.5-flash'', contents = image_prompt,
                   generation_config = Some (mk_config None None (Some [''image/png'']))\<rparr>
                  pg of
             (pg1, Inl e) \<Rightarrow> (pg1, Raised e)
           | (pg1, Inr response) \<Rightarrow>
               interpret_response L response (st (St_success ''Generated Image:'') pg1)))"

definition image_handler :: "exn \<Rightarrow> 'img page \<Rightarrow> 'img page \<times> outcome" where
  "image_handler e pg =
     say (St_info
           ''Ensure you are using a model capable of image generation (e.g., `gemini-1.5-flash`).'')
       (st (St_error (''Error generating image: '' @ str e)) pg)"

definition image_action :: "'img lib \<Rightarrow> string \<Rightarrow> 'img page \<Rightarrow> 'img page \<times> outcome" where
  "image_action L image_prompt pg =
     (if image_prompt \<noteq> [] then
        try_except Exception image_handler (image_body L image_prompt pg)
      else say (St_warning ''Please enter an image description.'') pg)"

subsection \<open>The script\<close>

text \<open>The widgets of one run: the three inputs, the two sliders and the three buttons.\<close>

record widgets =
  w_text_query :: string
  w_generate_text :: bool
  w_explain_ai_query :: string
  w_max_tokens :: int
  w_temperature :: real
  w_generate_configured :: bool
  w_image_prompt :: string
  w_generate_image :: bool

definition when_pressed ::
  "bool \<Rightarrow> ('img page \<Rightarrow> 'img page \<times> outcome) \<Rightarrow> 'img page \<Rightarrow> 'img page \<times> outcome" where
  "when_pressed button action pg = (if button then action pg else (pg, Normal))"

definition run_script ::
  "'img lib \<Rightarrow> (string \<rightharpoonup> string) \<Rightarrow> widgets \<Rightarrow> 'img page \<Rightarrow> 'img page \<times> outcome" where
  "run_script L secrets w =
     run_steps
       [configure_api_key secrets,
        say (St_title ''Gemini API Demo with Streamlit''),
        say (St_markdown
              ([CHR 0x0A]
               @ ''This app demonstrates basic text and image generation using Google's Gemini API.''
               @ [CHR 0x0A])),
        say (St_header ''Text Generation''),
        say (St_write ''Ask Gemini a question and get a text response.''),
        when_pressed (w_generate_text w) (text_action L (w_text_query w)),
        say (St_markdown ''---''),
        say (St_header ''Configurable Text Generation''),
        say (St_write
              ''Generate text with custom parameters like max output tokens and temperature.''),
        when_pressed (w_generate_configured w)
          (config_action L (w_explain_ai_query w) (w_max_tokens w) (w_temperature w)),
        say (St_markdown ''---''),
        say (St_header ''Image Generation''),
        say (St_write ''Describe an image you want Gemini to create.''),
        when_pressed (w_generate_image w) (image_action L (w_image_prompt w)),
        say (St_markdown ''---''),
        say (St_info
              ''Note: The `google.colab.drive` import is specific to Google Colab and is not relevant for a Streamlit app.'')]"

subsection \<open>What one part renders\<close>

text \<open>
  The display calls one part adds to the page, and whether the part is processed without
  an exception. Both are read off \<open>process_part\<close> on an empty page.
\<close>

definition part_output :: "'img lib \<Rightarrow> part \<Rightarrow> 'img st_call list" where
  "part_output L p = rendered (fst (process_part L p blank_page))"

definition part_ok :: "'img lib \<Rightarrow> part \<Rightarrow> bool" where
  "part_ok L p = (snd (process_part L p blank_page) = Normal)"

text \<open>
  The libraries raise only instances of \<^verbatim>\<open>Exception\<close> (errors), never one of the
  control-flow classes directly below \<^verbatim>\<open>BaseException\<close>.
\<close>

definition raises_only_Exception :: "'img lib \<Rightarrow> bool" where
  "raises_only_Exception L \<longleftrightarrow>
     (\<forall>rq e. generate_content L rq = Inl e \<longrightarrow> isinstance e Exception) \<and>
     (\<forall>r e. response_text L r = Inl e \<longrightarrow> isinstance e Exception) \<and>
     (\<forall>bs e. Image_open L bs = Inl e \<longrightarrow> isinstance e Exception)"

section \<open>Stand-ins for the libraries\<close>

text \<open>
  Concrete values for the examples. \<open>sample_png\<close> is a complete PNG file of one black
  pixel: the signature, IHDR (1 by 1, 8-bit greyscale), IDAT (the zlib stream of the one
  scanline) and IEND, each chunk with its length and CRC; \<open>sample_payload\<close> is its
  base64 text. The image opener stands for \<^verbatim>\<open>PIL.Image.open\<close> on that one file and keeps
  the bytes as the image; it refuses everything else. The text accessor returns the text
  of the first part, and a client answers every request with one fixed response or with
  one fixed exception.
\<close>

definition sample_png :: "byte list" where
  "sample_png =
     [137, 80, 78, 71, 13, 10, 26, 10,
      0, 0, 0, 13, 73, 72, 68, 82, 0, 0, 0, 1, 0, 0, 0, 1, 8, 0, 0, 0, 0, 58, 126, 155, 85,
      0, 0, 0, 10, 73, 68, 65, 84, 120, 218, 99, 96, 0, 0, 0, 2, 0, 1, 229, 39, 222, 252,
      0, 0, 0, 0, 73, 69, 78, 68, 174, 66, 96, 130]"

definition sample_payload :: string where
  "sample_payload =
     ''iVBORw0KGgoAAAANSUhEUgAAAAEAAAABCAAAAAA6fptVAAAACklEQVR42mNgAAAAAgAB5Sfe/AAAAABJRU5ErkJggg==''"

definition png_open :: "byte list \<Rightarrow> exn + byte list" where
  "png_open bs =
     (if bs = sample_png then Inr bs
      else Inl (Exn OSError ''cannot identify image file''))"

definition first_text :: "response \<Rightarrow> exn + string" where
  "first_text r =
     (case candidates r of
        [] \<Rightarrow> Inl (Exn ValueError ''no candidates'')
      | c # _ \<Rightarrow>
          (case parts c of
             [] \<Rightarrow> Inl (Exn ValueError ''no parts'')
           | p # _ \<Rightarrow> Inr (part_text p)))"

definition answering :: "response \<Rightarrow> byte list lib" where
  "answering r =
     \<lparr>generate_content = (\<lambda>rq. Inr r), response_text = first_text, Image_open = png_open\<rparr>"

definition failing :: "exn \<Rightarrow> byte list lib" where
  "failing e =
     \<lparr>generate_content = (\<lambda>rq. Inl e), response_text = first_text, Image_open = png_open\<rparr>"

definition text_part :: "string \<Rightarrow> part" where
  "text_part s = \<lparr>part_text = s, part_inline_data = None\<rparr>"

definition image_part :: "string \<Rightarrow> string \<Rightarrow> part" where
  "image_part m d = \<lparr>part_text = [], part_inline_data = Some \<lparr>mime_type = m, data = d\<rparr>\<rparr>"

definition empty_part :: part where
  "empty_part = \<lparr>part_text = [], part_inline_data = None\<rparr>"

definition one_candidate :: "part list \<Rightarrow> response" where
  "one_candidate ps = \<lparr>candidates = [\<lparr>parts = ps\<rparr>]\<rparr>"

definition text_and_image :: response where
  "text_and_image =
     one_candidate [text_part ''a'', image_part ''image/png'' sample_payload]"


definition no_candidates :: response where
  "no_candidates = \<lparr>candidates = []\<rparr>"

definition empty_then_text :: response where
  "empty_then_text = one_candidate [empty_part, text_part ''b'']"

definition sample_widgets :: widgets where
  "sample_widgets =
     \<lparr>w_text_query = ''Who is the god of cricket?'', w_generate_text = True,
      w_explain_ai_query = ''Explain how AI works'', w_max_tokens = 100,
      w_temperature = 3 / 2, w_generate_configured = True,
      w_image_prompt = ''A 3D rendered image of an RCB team, futuristic cricket stadium'',
      w_generate_image = True\<rparr>"

section \<open>Properties of the base64 codec and of the part loop\<close>

lemma table_distinct: "distinct table_b2a_base64"
  by (simp add: table_b2a_base64_def)

lemma index_of_nth: "distinct xs \<Longrightarrow> i < length xs \<Longrightarrow> index_of (xs ! i) xs = Some i"
proof (induction xs arbitrary: i)
  case Nil then show ?case by simp
next
  case (Cons x xs)
  show ?case
  proof (cases i)
    case 0 then show ?thesis by simp
  next
    case (Suc j)
    with Cons.prems have "xs ! j \<noteq> x" "distinct xs" "j < length xs" by auto
    with Cons.IH[of j] Suc show ?thesis by simp
  qed
qed

lemma mask6: "unat ((v::byte) AND 0x3f) < 64"
proof -
  have "v AND 0x3f \<le> 0x3f" by (rule word_and_le1)
  then have "unat (v AND 0x3f) \<le> unat (0x3f :: byte)" by (simp add: word_le_nat_alt)
  then show ?thesis by simp
qed

lemma a2b_b2a: "table_a2b_base64 (b2a v) = Some (v AND 0x3f)"
proof -
  have "index_of (b2a v) table_b2a_base64 = Some (unat (v AND 0x3f))"
    unfolding b2a_def
    by (rule index_of_nth[OF table_distinct]) (use mask6[of v] in \<open>simp add: table_b2a_base64_def\<close>)
  then show ?thesis by (simp add: table_a2b_base64_def)
qed

lemma b2a_not_pad: "b2a v \<noteq> BASE64_PAD"
proof
  assume "b2a v = BASE64_PAD"
  moreover have "b2a v \<in> set table_b2a_base64"
    unfolding b2a_def by (rule nth_mem) (use mask6[of v] in \<open>simp add: table_b2a_base64_def\<close>)
  ultimately show False by (simp add: table_b2a_base64_def BASE64_PAD_def)
qed

lemma and_3f: "(v::byte) AND 0x3f = take_bit 6 v"
proof -
  have "(0x3f::byte) = mask 6" by (simp add: mask_eq_exp_minus_1)
  then show ?thesis by (simp add: take_bit_eq_mask)
qed
lemma and_0f: "(v::byte) AND 0x0f = take_bit 4 v"
proof -
  have "(0x0f::byte) = mask 4" by (simp add: mask_eq_exp_minus_1)
  then show ?thesis by (simp add: take_bit_eq_mask)
qed
lemma and_03: "(v::byte) AND 0x03 = take_bit 2 v"
proof -
  have "(0x03::byte) = mask 2" by (simp add: mask_eq_exp_minus_1)
  then show ?thesis by (simp add: take_bit_eq_mask)
qed

lemma bit_byte_high: "8 \<le> n \<Longrightarrow> \<not> bit (w::byte) n"
  using bit_imp_le_length[of w n] by auto

lemma Suc2_diff: "2 \<le> n \<Longrightarrow> Suc (Suc (n - 2)) = n" by simp

lemmas bsimps = bit_simps bit_byte_high Suc2_diff le_add_diff_inverse

lemma bits1: "push_bit 2 (take_bit 6 (drop_bit 2 a)) OR drop_bit 4 (take_bit 6 (push_bit 4 (take_bit 2 a) OR drop_bit 4 b)) = (a::byte)"
  apply (rule bit_word_eqI)
  apply (auto simp: bsimps)
  apply (rule ccontr, simp add: bsimps not_less)
  done

lemma bits2: "push_bit 4 (take_bit 4 (take_bit 6 (push_bit 4 (take_bit 2 a) OR drop_bit 4 b))) OR drop_bit 2 (take_bit 6 (push_bit 2 (take_bit 4 b) OR drop_bit 6 c)) = (b::byte)"
  apply (rule bit_word_eqI)
  apply (auto simp: bsimps)
  apply (rule ccontr, simp add: bsimps not_less)
  done

lemma bits3: "push_bit 6 (take_bit 2 (take_bit 6 (push_bit 2 (take_bit 4 b) OR drop_bit 6 c))) OR take_bit 6 c = (c::byte)"
  by (rule bit_word_eqI) (auto simp: bsimps)

lemma a2b_data:
  "a2b_loop q l p bin (b2a v # rest) =
     (if q = 0 then a2b_loop 1 (v AND 0x3f) 0 bin rest
      else if q = 1 then
        a2b_loop 2 ((v AND 0x3f) AND 0x0f) 0 (bin @ [push_bit 2 l OR drop_bit 4 (v AND 0x3f)]) rest
      else if q = 2 then
        a2b_loop 3 ((v AND 0x3f) AND 0x03) 0 (bin @ [push_bit 4 l OR drop_bit 2 (v AND 0x3f)]) rest
      else a2b_loop 0 0 0 (bin @ [push_bit 6 l OR (v AND 0x3f)]) rest)"
  by (simp add: b2a_not_pad a2b_b2a)

lemma a2b_pad:
  "a2b_loop q l p bin (BASE64_PAD # rest) =
     (if q \<ge> 2 then
        (if q + (p + 1) \<ge> 4 then Inr bin else a2b_loop q l (p + 1) bin rest)
      else a2b_loop q l p bin rest)"
  by simp

lemmas a2b_steps = a2b_loop.simps(1) a2b_data a2b_pad and_3f and_0f and_03

lemma bits1a: "push_bit 2 (take_bit 6 (drop_bit 2 a)) OR drop_bit 4 (take_bit 6 (push_bit 4 (take_bit 2 a))) = (a::byte)"
  using bits1[of a 0] by simp

lemma bits2a: "push_bit 4 (take_bit 4 (take_bit 6 (push_bit 4 (take_bit 2 a) OR drop_bit 4 b))) OR drop_bit 2 (take_bit 6 (push_bit 2 (take_bit 4 b))) = (b::byte)"
  using bits2[of a b 0] by simp

lemma a2b_b64encode: "a2b_loop 0 l 0 bin (b64encode bs) = Inr (bin @ bs)"
proof (induction bs arbitrary: l bin rule: b64encode.induct)
  case 1
  show ?case by simp
next
  case (2 a)
  have "a2b_loop 0 l 0 bin (b64encode [a]) =
        Inr (bin @ [push_bit 2 (take_bit 6 (drop_bit 2 a))
                     OR drop_bit 4 (take_bit 6 (push_bit 4 (take_bit 2 a)))])"
    by (simp add: a2b_steps del: a2b_loop.simps)
  then show ?case by (simp only: bits1a)
next
  case (3 a b)
  have "a2b_loop 0 l 0 bin (b64encode [a, b]) =
        Inr (bin @ [push_bit 2 (take_bit 6 (drop_bit 2 a))
                     OR drop_bit 4 (take_bit 6 (push_bit 4 (take_bit 2 a) OR drop_bit 4 b)),
                    push_bit 4 (take_bit 4 (take_bit 6 (push_bit 4 (take_bit 2 a) OR drop_bit 4 b)))
                     OR drop_bit 2 (take_bit 6 (push_bit 2 (take_bit 4 b)))])"
    by (simp add: a2b_steps del: a2b_loop.simps)
  then show ?case by (simp only: bits1 bits2a)
next
  case (4 a b c rest)
  have "a2b_loop 0 l 0 bin (b64encode (a # b # c # rest)) =
        a2b_loop 0 0 0
          (bin @ [push_bit 2 (take_bit 6 (drop_bit 2 a))
                     OR drop_bit 4 (take_bit 6 (push_bit 4 (take_bit 2 a) OR drop_bit 4 b)),
                  push_bit 4 (take_bit 4 (take_bit 6 (push_bit 4 (take_bit 2 a) OR drop_bit 4 b)))
                     OR drop_bit 2 (take_bit 6 (push_bit 2 (take_bit 4 b) OR drop_bit 6 c)),
                  push_bit 6 (take_bit 2 (take_bit 6 (push_bit 2 (take_bit 4 b) OR drop_bit 6 c)))
                     OR take_bit 6 c])
          (b64encode rest)"
    by (simp add: a2b_steps del: a2b_loop.simps)
  also have "\<dots> = a2b_loop 0 0 0 (bin @ [a, b, c]) (b64encode rest)"
    by (simp only: bits1 bits2 bits3)
  also have "\<dots> = Inr ((bin @ [a, b, c]) @ rest)"
    by (rule "4.IH")
  finally show ?case by simp
qed




lemma st_simps [simp]:
  "rendered (st c pg) = rendered pg @ [c]"
  "api_calls (st c pg) = api_calls pg"
  "api_key (st c pg) = api_key pg"
  by (simp_all add: st_def)

lemma sent_simps [simp]:
  "rendered (sent rq pg) = rendered pg"
  "api_calls (sent rq pg) = api_calls pg @ [rq]"
  "api_key (sent rq pg) = api_key pg"
  by (simp_all add: sent_def)

lemma say_simps [simp]: "fst (say c pg) = st c pg" "snd (say c pg) = Normal"
  by (simp_all add: say_def)

lemma process_part_page:
  "process_part L p pg =
     (pg\<lparr>rendered := rendered pg @ part_output L p\<rparr>,
      if part_ok L p then Normal else snd (process_part L p pg))"
  by (simp add: process_part_def part_output_def part_ok_def blank_page_def st_def
           split: option.splits sum.splits)

lemma part_ok_snd: "part_ok L p \<longleftrightarrow> snd (process_part L p pg) = Normal"
  by (simp add: process_part_def part_ok_def split: option.splits sum.splits)

lemma part_output_failed: "\<not> part_ok L p \<Longrightarrow> part_output L p = []"
  by (auto simp: process_part_def part_output_def part_ok_def blank_page_def
           split: option.splits sum.splits if_splits)

lemma part_loop_rendered:
  "rendered (fst (part_loop L ps pg)) =
     rendered pg @ concat (map (part_output L) (takeWhile (part_ok L) ps))"
proof (induction ps arbitrary: pg)
  case Nil
  show ?case by simp
next
  case (Cons p ps)
  show ?case
  proof (cases "part_ok L p")
    case True
    then have "snd (process_part L p pg) = Normal" by (simp add: part_ok_snd[of L p pg])
    moreover have "rendered (fst (process_part L p pg)) = rendered pg @ part_output L p"
      by (subst process_part_page) simp
    ultimately show ?thesis using True Cons.IH[of "fst (process_part L p pg)"]
      by (simp add: Let_def)
  next
    case False
    then have "snd (process_part L p pg) \<noteq> Normal" by (simp add: part_ok_snd[of L p pg])
    moreover have "rendered (fst (process_part L p pg)) = rendered pg @ part_output L p"
      by (subst process_part_page) simp
    ultimately show ?thesis using False by (simp add: Let_def part_output_failed)
  qed
qed

lemma part_loop_append:
  "part_loop L (xs @ ys) pg =
     (if snd (part_loop L xs pg) = Normal then part_loop L ys (fst (part_loop L xs pg))
      else part_loop L xs pg)"
  by (induction xs arbitrary: pg) (simp_all add: Let_def)

lemma part_loop_Normal_iff:
  "snd (part_loop L ps pg) = Normal \<longleftrightarrow> (\<forall>p \<in> set ps. part_ok L p)"
proof (induction ps arbitrary: pg)
  case Nil
  show ?case by simp
next
  case (Cons p ps)
  show ?case using Cons.IH[of "fst (process_part L p pg)"] part_ok_snd[of L p pg]
    by (auto simp: Let_def)
qed

lemma a2b_loop_Exception: "a2b_loop q l p bin s = Inl e \<Longrightarrow> isinstance e Exception"
  by (induction q l p bin s rule: a2b_loop.induct)
     (auto simp: isinstance_def split: if_splits option.splits)

lemma b64decode_Exception: "b64decode s = Inl e \<Longrightarrow> isinstance e Exception"
  unfolding b64decode_def by (rule a2b_loop_Exception)

subsection \<open>The actions and the script\<close>

lemma sample_payload_encoded: "b64encode sample_png = sample_payload"
  by code_simp

lemma sample_decodes: "b64decode sample_payload = Inr sample_png"
  using a2b_b64encode[of 0 "[]" sample_png]
  by (simp add: b64decode_def sample_payload_encoded)

lemma png_open_sample: "png_open sample_png = Inr sample_png"
  by (simp add: png_open_def)



lemma process_part_neither:
  "part_text p = [] \<Longrightarrow> part_inline_data p = None \<Longrightarrow> process_part L p pg = (pg, Normal)"
  by (simp add: process_part_def)


lemma try_except_caught:
  "snd r = Raised e \<Longrightarrow> isinstance e c \<Longrightarrow> try_except c h r = h e (fst r)"
  by (simp add: try_except_def)

lemma try_except_Normal: "snd r = Normal \<Longrightarrow> try_except c h r = r"
  by (simp add: try_except_def)

lemma text_body_outcome:
  assumes "raises_only_Exception L"
  shows "snd (text_body L q pg) = Normal
       \<or> (\<exists>e. snd (text_body L q pg) = Raised e \<and> isinstance e Exception)"
  using assms
  by (auto simp: text_body_def call_generate_content_def raises_only_Exception_def Let_def
           split: sum.splits)

lemma no_GenerateContentConfig_Exception: "isinstance no_GenerateContentConfig Exception"
  by (simp add: no_GenerateContentConfig_def isinstance_def)

lemma config_body_raises:
  "config_body L q mt t pg = (pg, Raised no_GenerateContentConfig)"
  by (simp add: config_body_def types_GenerateContentConfig_def)

lemma image_body_raises:
  "image_body L q pg = (pg, Raised no_GenerateContentConfig)"
  by (simp add: image_body_def types_GenerateContentConfig_def)

lemma config_body_outcome:
  "snd (config_body L q mt t pg) = Normal
       \<or> (\<exists>e. snd (config_body L q mt t pg) = Raised e \<and> isinstance e Exception)"
  by (simp add: config_body_raises no_GenerateContentConfig_Exception)

lemma process_part_outcome:
  assumes "raises_only_Exception L"
  shows "snd (process_part L p pg) = Normal
       \<or> (\<exists>e. snd (process_part L p pg) = Raised e \<and> isinstance e Exception)"
  using assms
  by (auto simp: process_part_def raises_only_Exception_def b64decode_Exception
           split: sum.splits option.splits)

lemma part_loop_outcome:
  assumes "raises_only_Exception L"
  shows "snd (part_loop L ps pg) = Normal
       \<or> (\<exists>e. snd (part_loop L ps pg) = Raised e \<and> isinstance e Exception)"
proof (induction ps arbitrary: pg)
  case Nil
  show ?case by simp
next
  case (Cons p ps)
  show ?case
    using process_part_outcome[OF assms, of p pg] Cons.IH[of "fst (process_part L p pg)"]
    by (auto simp: Let_def)
qed

lemma image_body_outcome:
  "snd (image_body L q pg) = Normal
       \<or> (\<exists>e. snd (image_body L q pg) = Raised e \<and> isinstance e Exception)"
  by (simp add: image_body_raises no_GenerateContentConfig_Exception)

lemma caught_Normal:
  assumes "snd r = Normal \<or> (\<exists>e. snd r = Raised e \<and> isinstance e Exception)"
    and "\<And>e pg. snd (h e pg) = Normal"
  shows "snd (try_except Exception h r) = Normal"
  using assms by (auto simp: try_except_def)

lemma text_action_Normal:
  "raises_only_Exception L \<Longrightarrow> snd (text_action L q pg) = Normal"
  by (simp add: text_action_def caught_Normal text_body_outcome)

lemma config_action_Normal:
  "snd (config_action L q mt t pg) = Normal"
  by (simp add: config_action_def caught_Normal config_body_outcome)

lemma image_action_Normal:
  "snd (image_action L q pg) = Normal"
  by (simp add: image_action_def caught_Normal image_body_outcome image_handler_def)

lemma run_steps_Normal:
  "(\<And>f pg. f \<in> set fs \<Longrightarrow> snd (f pg) = Normal) \<Longrightarrow> snd (run_steps fs pg) = Normal"
  by (induction fs arbitrary: pg) (simp_all add: Let_def)

lemma when_pressed_Normal:
  "(\<And>pg. snd (f pg) = Normal) \<Longrightarrow> snd (when_pressed b f pg) = Normal"
  by (simp add: when_pressed_def)

lemma run_script_Normal:
  assumes "raises_only_Exception L" and "secrets ''GOOGLE_API_KEY'' = Some k"
  shows "snd (run_script L secrets w pg) = Normal"
proof -
  have cfg: "configure_api_key secrets pg' = (pg'\<lparr>api_key := Some k\<rparr>, Normal)" for pg' :: "'a page"
    using assms(2) by (simp add: configure_api_key_def secrets_getitem_def try_except_def)
  show ?thesis
    unfolding run_script_def
    by (rule run_steps_Normal)
       (auto simp: cfg when_pressed_Normal text_action_Normal[OF assms(1)]
          config_action_Normal image_action_Normal)
qed

lemma failing_raises_only_Exception:
  "isinstance e Exception \<Longrightarrow> raises_only_Exception (failing e)"
  by (auto simp: raises_only_Exception_def failing_def first_text_def png_open_def
        isinstance_def split: list.splits if_splits)

section \<open>The claims\<close>

text \<open>
  C8. For every byte sequence, encoding it to base64 and feeding the encoded string through
  the decode step of the part loop (\<^verbatim>\<open>base64.b64decode\<close>) gives back the original
  bytes: decoding after encoding is the identity, and the decoder does not raise.
\<close>

theorem C8_b64decode_b64encode: "b64decode (b64encode bs) = Inr bs"
  by (simp add: b64decode_def a2b_b64encode)

theorem C8_b64decode_b64encode_witness: "b64decode (b64encode sample_png) = Inr sample_png"
  by (rule C8_b64decode_b64encode)

text \<open>
  C1 (as amended). When the first candidate's parts are a part with the non-empty text
  \<open>a\<close> followed by a part without text whose inline data decodes and opens as an image,
  the loop renders, in this order, \<^verbatim>\<open>st.write\<close> of the text behind the prefix
  \<^verbatim>\<open>Model's description/text: \<close> and \<^verbatim>\<open>st.image\<close> of the opened image with the caption
  \<^verbatim>\<open>Generated Image\<close>; the MIME type of the part is not read. For every part sequence,
  what the loop renders is the concatenation, in the order of the parts, of what each
  part renders, over the parts before the first one that raises.
\<close>

theorem C1_text_then_image:
  assumes "a \<noteq> []" and "b64decode (data inline) = Inr bs" and "Image_open L bs = Inr img"
  shows "interpret_response L
           \<lparr>candidates =
              \<lparr>parts = [\<lparr>part_text = a, part_inline_data = x\<rparr>,
                        \<lparr>part_text = [], part_inline_data = Some inline\<rparr>]\<rparr> # cs\<rparr> pg
         = (pg\<lparr>rendered := rendered pg
                  @ [St_write (''Model's description/text: '' @ a),
                     St_image img ''Generated Image'' True]\<rparr>, Normal)
       \<and> rendered (fst (interpret_response L \<lparr>candidates = \<lparr>parts = ps\<rparr> # cs\<rparr> pg))
         = rendered pg @ concat (map (part_output L) (takeWhile (part_ok L) ps))"
  using assms
  by (simp add: interpret_response_def part_loop_rendered process_part_def st_def Let_def)

theorem C1_text_then_image_witness:
  "interpret_response (answering text_and_image) text_and_image blank_page
     = (\<lparr>rendered = [St_write ''Model's description/text: a'',
                      St_image sample_png ''Generated Image'' True],
         api_calls = [], api_key = None\<rparr>, Normal)"
proof -
  have "Image_open (answering text_and_image) sample_png = Inr sample_png"
    by (simp add: answering_def png_open_sample)
  from C1_text_then_image[of "''a''" "\<lparr>mime_type = ''image/png'', data = sample_payload\<rparr>"
        sample_png "answering text_and_image" sample_png None "[]" blank_page "[]", THEN conjunct1]
    this sample_decodes
  show ?thesis
    by (simp add: text_and_image_def one_candidate_def text_part_def image_part_def blank_page_def)
qed

text \<open>
  C1 as stated fails: for the parts \<open>Text "a"\<close>, \<open>InlineImage\<close> of the base64 text of a
  complete PNG file, the text that is displayed is not \<open>a\<close> but \<open>a\<close> behind the prefix,
  and the image call carries a caption and no MIME type.
\<close>

theorem C1_counterexample:
  "rendered (fst (interpret_response (answering text_and_image) text_and_image blank_page))
     = [St_write ''Model's description/text: a'', St_image sample_png ''Generated Image'' True]
   \<and> hd (rendered (fst (interpret_response (answering text_and_image) text_and_image blank_page)))
     \<noteq> St_write ''a''"
proof -
  have "interpret_response (answering text_and_image) text_and_image blank_page
     = (\<lparr>rendered = [St_write ''Model's description/text: a'',
                      St_image sample_png ''Generated Image'' True],
         api_calls = [], api_key = None\<rparr>, Normal)"
    by (simp add: interpret_response_def text_and_image_def one_candidate_def text_part_def
          image_part_def blank_page_def process_part_def st_def Let_def sample_decodes
          answering_def png_open_sample)
  then show ?thesis by simp
qed

text \<open>
  C2 (as amended). For a response whose candidate list is empty, the subscript
  \<^verbatim>\<open>response.candidates[0]\<close> raises Python's \<^verbatim>\<open>IndexError\<close> with the message
  \<^verbatim>\<open>list index out of range\<close>; the script has no error of its own for this case and no
  check for it. The loop over the parts is not entered and the page is unchanged. Inside
  the \<^verbatim>\<open>try\<close> of the image action the exception is caught by the one generic handler,
  which renders its error message with that text and the hint. A response with a first
  candidate never fails this way: it is handed to the loop over its parts.
\<close>

theorem C2_empty_candidates_IndexError:
  "(candidates r = [] \<longrightarrow>
      interpret_response L r pg = (pg, Raised (Exn IndexError ''list index out of range''))
      \<and> try_except Exception image_handler (interpret_response L r pg)
        = (pg\<lparr>rendered := rendered pg
                 @ [St_error ''Error generating image: list index out of range'',
                    St_info
                      ''Ensure you are using a model capable of image generation (e.g., `gemini-1.5-flash`).'']\<rparr>,
           Normal))
   \<and> (candidates r = c # cs \<longrightarrow> interpret_response L r pg = part_loop L (parts c) pg)"
  by (simp add: interpret_response_def try_except_def isinstance_def image_handler_def
        say_def st_def)

theorem C2_empty_candidates_IndexError_witness:
  "interpret_response (answering no_candidates) no_candidates blank_page
     = (blank_page, Raised (Exn IndexError ''list index out of range''))
   \<and> interpret_response (answering text_and_image) text_and_image blank_page
     = part_loop (answering text_and_image)
         [text_part ''a'', image_part ''image/png'' sample_payload] blank_page"
proof -
  have "candidates no_candidates = []"
    by (simp add: no_candidates_def)
  moreover have "candidates text_and_image
      = [\<lparr>parts = [text_part ''a'', image_part ''image/png'' sample_payload]\<rparr>]"
    by (simp add: text_and_image_def one_candidate_def)
  ultimately show ?thesis
    using C2_empty_candidates_IndexError[of no_candidates "answering no_candidates" blank_page]
      C2_empty_candidates_IndexError[of text_and_image "answering text_and_image" blank_page
        "\<lparr>parts = [text_part ''a'', image_part ''image/png'' sample_payload]\<rparr>" "[]"]
    by simp
qed

text \<open>
  C2 as stated fails: for the response without candidates, what is raised is the
  \<^verbatim>\<open>IndexError\<close> of the list subscript, and what the handler of the image action shows
  for it is the generic message with the text \<^verbatim>\<open>list index out of range\<close>, followed by
  the hint about the model. Nothing names the missing content.
\<close>

theorem C2_counterexample:
  "interpret_response (answering no_candidates) no_candidates blank_page
     = (blank_page, Raised (Exn IndexError ''list index out of range''))
   \<and> rendered (fst (try_except Exception image_handler
                       (interpret_response (answering no_candidates) no_candidates blank_page)))
     = [St_error ''Error generating image: list index out of range'',
        St_info
          ''Ensure you are using a model capable of image generation (e.g., `gemini-1.5-flash`).'']"
  by (simp add: interpret_response_def no_candidates_def try_except_def isinstance_def
        image_handler_def say_def st_def blank_page_def)




text \<open>
  C4. With no \<^verbatim>\<open>GOOGLE_API_KEY\<close> among the secrets, the subscript raises \<^verbatim>\<open>KeyError\<close>;
  the clause \<^verbatim>\<open>except AttributeError\<close> does not match it, so neither \<^verbatim>\<open>st.error\<close> nor
  \<^verbatim>\<open>st.stop()\<close> runs: the run of the script ends with the exception, nothing is rendered
  and no request is sent.
\<close>

theorem C4_missing_key_not_caught:
  "configure_api_key Map.empty pg = (pg, Raised (Exn KeyError ''GOOGLE_API_KEY''))
   \<and> run_script L Map.empty w pg = (pg, Raised (Exn KeyError ''GOOGLE_API_KEY''))"
  by (simp add: run_script_def configure_api_key_def secrets_getitem_def try_except_def
        isinstance_def Let_def)

text \<open>
  C5. The claim is that the values of the two sliders reach the API call unchanged. In the
  script they do not reach it at all: for every non-empty topic and every pair of values,
  building the config object raises \<^verbatim>\<open>AttributeError\<close> before \<^verbatim>\<open>generate_content\<close> is
  called, the handler of the action renders the error message, and no request is sent.
\<close>

theorem C5_config_never_reaches_api:
  "config_action L (c # cs) max_tokens temp pg
     = (pg\<lparr>rendered := rendered pg
              @ [St_error (''Error generating configured text: ''
                            @ str no_GenerateContentConfig)]\<rparr>, Normal)
   \<and> api_calls (fst (config_action L ''Explain how AI works'' 100 (3 / 2) pg)) = api_calls pg"
  by (simp add: config_action_def config_body_raises try_except_def
        no_GenerateContentConfig_Exception say_def st_def)

text \<open>
  C6 (as amended). A part with neither text nor inline data is skipped silently: it
  renders nothing (no warning either), raises nothing, and the loop goes on with the
  remaining parts as if the part were not there.
\<close>

theorem C6_unrecognised_part_skipped:
  assumes "part_text p = []" and "part_inline_data p = None"
  shows "process_part L p pg = (pg, Normal)
       \<and> part_loop L (pre @ p # rest) pg = part_loop L (pre @ rest) pg"
  using assms by (simp add: part_loop_append process_part_neither Let_def)

theorem C6_unrecognised_part_skipped_witness:
  "process_part (answering empty_then_text) empty_part blank_page = (blank_page, Normal)
   \<and> part_loop (answering empty_then_text) ([] @ empty_part # [text_part ''b'']) blank_page
     = part_loop (answering empty_then_text) ([] @ [text_part ''b'']) blank_page"
proof -
  have "part_text empty_part = []" and "part_inline_data empty_part = None"
    by (simp_all add: empty_part_def)
  then show ?thesis by (rule C6_unrecognised_part_skipped)
qed

text \<open>
  C6 as stated fails: for a response whose only part has neither text nor inline data,
  the loop ends normally and leaves the page as it was. No warning is emitted.
\<close>

theorem C6_counterexample:
  "interpret_response (answering (one_candidate [empty_part])) (one_candidate [empty_part])
       blank_page
     = (blank_page, Normal)"
  by (simp add: one_candidate_def interpret_response_def process_part_def empty_part_def
        Let_def)

text \<open>
  C7. When the libraries raise errors (instances of \<^verbatim>\<open>Exception\<close>), each of the three
  actions ends normally whatever happens inside it; an exception raised in the body of
  an action is turned into that action's error message on the page; and with the API key
  present the run of the whole script ends normally, so the later sections still run.
\<close>

theorem C7_errors_caught_at_action_boundary:
  assumes "raises_only_Exception L"
  shows "snd (text_action L text_query pg) = Normal
       \<and> snd (config_action L explain_ai_query max_tokens temp pg) = Normal
       \<and> snd (image_action L image_prompt pg) = Normal
       \<and> (text_query \<noteq> [] \<and> snd (text_body L text_query pg) = Raised e \<longrightarrow>
            text_action L text_query pg
              = (st (St_error (''Error generating text: '' @ str e))
                   (fst (text_body L text_query pg)), Normal))
       \<and> (explain_ai_query \<noteq> []
            \<and> snd (config_body L explain_ai_query max_tokens temp pg) = Raised e \<longrightarrow>
            config_action L explain_ai_query max_tokens temp pg
              = (st (St_error (''Error generating configured text: '' @ str e))
                   (fst (config_body L explain_ai_query max_tokens temp pg)), Normal))
       \<and> (image_prompt \<noteq> [] \<and> snd (image_body L image_prompt pg) = Raised e \<longrightarrow>
            image_action L image_prompt pg
              = (st (St_info
                      ''Ensure you are using a model capable of image generation (e.g., `gemini-1.5-flash`).'')
                   (st (St_error (''Error generating image: '' @ str e))
                     (fst (image_body L image_prompt pg))), Normal))
       \<and> (secrets ''GOOGLE_API_KEY'' = Some k \<longrightarrow> snd (run_script L secrets w pg) = Normal)"
proof -
  have t: "text_query \<noteq> [] \<and> snd (text_body L text_query pg) = Raised e \<longrightarrow>
            text_action L text_query pg
              = (st (St_error (''Error generating text: '' @ str e))
                   (fst (text_body L text_query pg)), Normal)"
    using text_body_outcome[OF assms, of text_query pg]
    by (auto simp: text_action_def try_except_caught say_def)
  have c: "explain_ai_query \<noteq> []
            \<and> snd (config_body L explain_ai_query max_tokens temp pg) = Raised e \<longrightarrow>
            config_action L explain_ai_query max_tokens temp pg
              = (st (St_error (''Error generating configured text: '' @ str e))
                   (fst (config_body L explain_ai_query max_tokens temp pg)), Normal)"
    using config_body_outcome[of L explain_ai_query max_tokens temp pg]
    by (auto simp: config_action_def try_except_caught say_def)
  have i: "image_prompt \<noteq> [] \<and> snd (image_body L image_prompt pg) = Raised e \<longrightarrow>
            image_action L image_prompt pg
              = (st (St_info
                      ''Ensure you are using a model capable of image generation (e.g., `gemini-1.5-flash`).'')
                   (st (St_error (''Error generating image: '' @ str e))
                     (fst (image_body L image_prompt pg))), Normal)"
    using image_body_outcome[of L image_prompt pg]
    by (auto simp: image_action_def try_except_caught image_handler_def say_def)
  show ?thesis
    using t c i text_action_Normal[OF assms] config_action_Normal
      image_action_Normal run_script_Normal[OF assms]
    by blast
qed

theorem C7_errors_caught_at_action_boundary_witness:
  "raises_only_Exception (failing (Exn ValueError ''429 quota exceeded''))
   \<and> text_action (failing (Exn ValueError ''429 quota exceeded'')) ''hi'' blank_page
     = (\<lparr>rendered = [St_error ''Error generating text: 429 quota exceeded''],
         api_calls = [text_request ''hi''], api_key = None\<rparr>, Normal)
   \<and> snd (run_script (failing (Exn ValueError ''429 quota exceeded''))
            [''GOOGLE_API_KEY'' \<mapsto> ''k''] sample_widgets blank_page) = Normal"
proof -
  have h: "raises_only_Exception (failing (Exn ValueError ''429 quota exceeded''))"
    by (rule failing_raises_only_Exception) (simp add: isinstance_def)
  have b: "text_body (failing (Exn ValueError ''429 quota exceeded'')) ''hi'' blank_page
      = (\<lparr>rendered = [], api_calls = [text_request ''hi''], api_key = None\<rparr>,
         Raised (Exn ValueError ''429 quota exceeded''))"
    by (simp add: text_body_def call_generate_content_def failing_def sent_def blank_page_def
          Let_def)
  from C7_errors_caught_at_action_boundary[OF h, of "''hi''" blank_page _ _ _ _
      "Exn ValueError ''429 quota exceeded''" "[''GOOGLE_API_KEY'' \<mapsto> ''k'']" "''k''" sample_widgets]
    h b
  show ?thesis by (simp add: st_def)
qed

text \<open>
  C9. With an empty prompt each of the three actions renders its warning and nothing
  else: no request is sent, no response is rendered, and the action ends normally.
\<close>

theorem C9_empty_prompt_warns:
  "text_action L [] pg
     = (pg\<lparr>rendered := rendered pg @ [St_warning ''Please enter a question.'']\<rparr>, Normal)
   \<and> config_action L [] max_tokens temp pg
     = (pg\<lparr>rendered := rendered pg @ [St_warning ''Please enter a topic to explain.'']\<rparr>,
        Normal)
   \<and> image_action L [] pg
     = (pg\<lparr>rendered := rendered pg @ [St_warning ''Please enter an image description.'']\<rparr>,
        Normal)"
  by (simp add: text_action_def config_action_def image_action_def say_def st_def)

theorem C9_empty_prompt_warns_witness:
  "text_action (answering text_and_image) [] blank_page
     = (\<lparr>rendered = [St_warning ''Please enter a question.''], api_calls = [], api_key = None\<rparr>,
        Normal)
   \<and> config_action (answering text_and_image) [] 100 (3 / 2) blank_page
     = (\<lparr>rendered = [St_warning ''Please enter a topic to explain.''], api_calls = [],
         api_key = None\<rparr>, Normal)
   \<and> image_action (answering text_and_image) [] blank_page
     = (\<lparr>rendered = [St_warning ''Please enter an image description.''], api_calls = [],
         api_key = None\<rparr>, Normal)"
  using C9_empty_prompt_warns[of "answering text_and_image" blank_page 100 "3 / 2"]
  by (simp add: blank_page_def)

text \<open>
  C10. A part adds at most one display call to the page, so the loop adds at most as
  many as there are parts; and a part with non-empty text renders only the text line,
  whatever inline data it also carries.
\<close>

theorem C10_one_output_per_part:
  "length (part_output L p) \<le> 1
   \<and> rendered (fst (process_part L p pg)) = rendered pg @ part_output L p
   \<and> length (rendered (fst (part_loop L ps pg))) \<le> length (rendered pg) + length ps
   \<and> (part_text p \<noteq> [] \<longrightarrow>
        process_part L p pg
          = (pg\<lparr>rendered := rendered pg
                   @ [St_write (''Model's description/text: '' @ part_text p)]\<rparr>, Normal))"
proof -
  have one: "length (part_output L q) \<le> 1" for q
    by (simp add: part_output_def process_part_def st_def blank_page_def
             split: option.splits sum.splits)
  have "rendered (fst (process_part L p pg)) = rendered pg @ part_output L p"
    by (subst process_part_page) simp
  moreover have "length (rendered (fst (part_loop L ps pg))) \<le> length (rendered pg) + length ps"
  proof -
    have cc: "length (concat (map (part_output L) qs)) \<le> length qs" for qs
    proof (induction qs)
      case Nil
      show ?case by simp
    next
      case (Cons q qs)
      then show ?case using one[of q] by simp
    qed
    have "length (concat (map (part_output L) (takeWhile (part_ok L) ps)))
            \<le> length (takeWhile (part_ok L) ps)"
      by (rule cc)
    also have "\<dots> \<le> length ps"
      by (rule length_takeWhile_le)
    finally show ?thesis by (simp add: part_loop_rendered)
  qed
  moreover have "part_text p \<noteq> [] \<longrightarrow>
        process_part L p pg
          = (pg\<lparr>rendered := rendered pg
                   @ [St_write (''Model's description/text: '' @ part_text p)]\<rparr>, Normal)"
    by (simp add: process_part_def st_def)
  ultimately show ?thesis using one[of p] by blast
qed

theorem C10_one_output_per_part_witness:
  "process_part (answering text_and_image)
     \<lparr>part_text = ''a'',
      part_inline_data = Some \<lparr>mime_type = ''image/png'', data = sample_payload\<rparr>\<rparr>
     blank_page
   = (\<lparr>rendered = [St_write ''Model's description/text: a''], api_calls = [], api_key = None\<rparr>,
      Normal)"
  using C10_one_output_per_part[of "answering text_and_image"
      "\<lparr>part_text = ''a'',
        part_inline_data = Some \<lparr>mime_type = ''image/png'', data = sample_payload\<rparr>\<rparr>"
      blank_page]
  by (simp add: blank_page_def)

end
